theory Spec2Isabelle
  imports Main "HOL-Library.Word"
begin

unbundle bit_operations_syntax

section \<open>The Ingenic TCU clock-event driver (drivers/clocksource/timer-ingenic.c)\<close>

text \<open>
  The driver is embedded as a state-passing program over a record \<open>world\<close>: the driver's
  own memory (the \<open>ingenic_tcu\<close> structure with its channel array and its bitmap
  \<open>requested\<close>), the memory-mapped registers, the registers behind the regmaps, and the
  trace of every call that leaves the file, in program order. What the kernel services
  return (clock lookup, allocation, interrupt mapping, device-tree reads) is not decided
  by this file: it is read from a record \<open>env\<close>.

  The SoCs the driver binds to (JZ4740, JZ4770, JZ4780) are 32-bit MIPS cores, so
  \<open>unsigned\<close>, \<open>u32\<close>, \<open>unsigned long\<close> and pointers are all 32-bit words. A pointer is its
  address; \<open>NULL\<close> is 0 and the error pointers are the top 4095 addresses, as in
  linux/err.h. A pointer into the channel array, \<open>&tcu->channels[c]\<close>, is the position
  \<open>c\<close>; dereferencing a position outside the array is the outcome \<open>Fault\<close>.
\<close>

type_synonym u32 = "32 word"
type_synonym ulong = "32 word"
type_synonym pointer = "32 word"

subsection \<open>Constants\<close>

definition EINVAL :: int where "EINVAL = 22"
definition EBUSY :: int where "EBUSY = 16"
definition ENOMEM :: int where "ENOMEM = 12"
definition MAX_ERRNO :: pointer where "MAX_ERRNO = 4095"
definition BITS_PER_LONG :: nat where "BITS_PER_LONG = 32"

definition IS_ERR :: "pointer \<Rightarrow> bool" where
  "IS_ERR p \<longleftrightarrow> p \<ge> - MAX_ERRNO"

definition PTR_ERR :: "pointer \<Rightarrow> int" where
  "PTR_ERR p = sint p"

definition TCSR_RESERVED_BITS :: u32 where "TCSR_RESERVED_BITS = 0x3f"

definition REG_TDFR0 :: u32 where "REG_TDFR0 = 0x40"
definition REG_TDHR0 :: u32 where "REG_TDHR0 = 0x44"
definition REG_TCNT0 :: u32 where "REG_TCNT0 = 0x48"
definition REG_TCSR0 :: u32 where "REG_TCSR0 = 0x4c"
definition CHANNEL_STRIDE :: u32 where "CHANNEL_STRIDE = 0x10"

definition REG_TDFRc :: "u32 \<Rightarrow> u32" where
  "REG_TDFRc c = REG_TDFR0 + (c * CHANNEL_STRIDE)"

definition REG_TCNTc :: "u32 \<Rightarrow> u32" where
  "REG_TCNTc c = REG_TCNT0 + (c * CHANNEL_STRIDE)"

definition IRQ_HANDLED :: int where "IRQ_HANDLED = 1"

definition ingenic_tcu_timer_names :: "string list" where
  "ingenic_tcu_timer_names =
     [''TCU0'', ''TCU1'', ''TCU2'', ''TCU3'', ''TCU4'', ''TCU5'', ''TCU6'', ''TCU7'']"

text \<open>The conversion \<open>%u\<close> of \<open>snprintf\<close>: an unsigned value in decimal. The two buffers of
  the driver (16 bytes for \<open>timer%u\<close>, 32 bytes for \<open>ingenic-tcu-chan%u\<close>) hold the longest
  32-bit value, so nothing is truncated.\<close>

definition digit :: "nat \<Rightarrow> char" where
  "digit d = ''0123456789'' ! d"

fun fmt_u :: "nat \<Rightarrow> string" where
  "fmt_u n = (if n < 10 then [digit n]
              else fmt_u (n div 10) @ [digit (n mod 10)])"

declare fmt_u.simps [simp del]

subsection \<open>Data\<close>

text \<open>\<open>struct ingenic_tcu_channel\<close>. The back pointer \<open>tcu\<close> is not a field of the model:
  the world holds the one unit every channel points to.\<close>

record ingenic_tcu_channel =
  idx :: u32
  clk :: pointer

record ingenic_tcu =
  base :: pointer
  num_channels :: u32
  channels :: "ingenic_tcu_channel list"
  requested :: ulong
  ter :: pointer

datatype allocation = Tcu_struct | Channel_array | Jzcevt_struct

text \<open>What \<open>clockevents_config_and_register\<close> is handed: the fields of the
  \<open>clock_event_device\<close> the driver fills in, and the three numbers.\<close>

record registration =
  reg_device :: pointer
  reg_name :: string
  reg_oneshot :: bool
  reg_rating :: int
  reg_rate :: ulong
  reg_min_delta :: ulong
  reg_max_delta :: ulong

datatype event =
    Test_and_set_bit nat
  | Clear_bit nat
  | Clk_get string
  | Clk_prepare_enable pointer
  | Clk_disable_unprepare pointer
  | Clk_put pointer
  | Clk_get_rate pointer
  | Of_parse_phandle string u32
  | Syscon_node_to_regmap pointer
  | Regmap_update_bits pointer u32 u32 u32
  | Writel u32 pointer
  | Tcu_timer_enable pointer u32
  | Tcu_timer_disable pointer u32
  | Kzalloc allocation
  | Kfree allocation pointer
  | Syscon_regmap_lookup_by_phandle string
  | Of_iomap
  | Irq_of_parse_and_map u32
  | Request_irq u32 string pointer
  | Irq_dispose_mapping u32
  | Clockevents_config_and_register registration
  | Of_property_count_elems string
  | Of_property_read_u32_index string u32
  | Event_handler_called

record world =
  tcu :: ingenic_tcu
  mmio :: "pointer \<Rightarrow> u32"
  enable_reg :: "pointer \<Rightarrow> u32"
  regmap_regs :: "pointer \<Rightarrow> u32 \<Rightarrow> u32"
  trace :: "event list"

text \<open>The answers of the kernel services, for the device node the driver is probed
  with. Each is a function of the arguments of the call.\<close>

record env =
  clk_get_ret :: "string \<Rightarrow> pointer"
  clk_prepare_enable_ret :: "pointer \<Rightarrow> int"
  clk_get_rate_ret :: "pointer \<Rightarrow> ulong"
  of_parse_phandle_ret :: "string \<Rightarrow> u32 \<Rightarrow> pointer"
  syscon_node_to_regmap_ret :: "pointer \<Rightarrow> pointer"
  regmap_update_bits_ret :: "pointer \<Rightarrow> int"
  kzalloc_ret :: "allocation \<Rightarrow> pointer"
  syscon_regmap_lookup_by_phandle_ret :: "string \<Rightarrow> pointer"
  of_iomap_ret :: pointer
  irq_of_parse_and_map_ret :: "u32 \<Rightarrow> u32"
  request_irq_ret :: "u32 \<Rightarrow> int"
  of_property_count_elems_ret :: "string \<Rightarrow> int"
  of_property_read_u32_index_ret :: "string \<Rightarrow> u32 \<Rightarrow> int \<times> u32"

text \<open>A call returns a value and the new world (\<open>Ret\<close>), stops the kernel in \<open>BUG_ON\<close>
  (\<open>Bug\<close>), or reads memory outside an object, which C leaves undefined (\<open>Fault\<close>).\<close>

datatype 'a result = Ret 'a world | Bug world | Fault

type_synonym 'a prog = "world \<Rightarrow> 'a result"

definition ret :: "'a \<Rightarrow> 'a prog" where
  "ret a w = Ret a w"

definition seq :: "'a prog \<Rightarrow> ('a \<Rightarrow> 'b prog) \<Rightarrow> 'b prog" where
  "seq m f w = (case m w of Ret a w' \<Rightarrow> f a w' | Bug w' \<Rightarrow> Bug w' | Fault \<Rightarrow> Fault)"

definition log :: "event \<Rightarrow> world \<Rightarrow> world" where
  "log ev w = w\<lparr>trace := trace w @ [ev]\<rparr>"

definition call :: "event \<Rightarrow> 'a \<Rightarrow> 'a prog" where
  "call ev a w = Ret a (log ev w)"

subsection \<open>Memory of the driver\<close>

definition get_tcu :: "ingenic_tcu prog" where
  "get_tcu w = Ret (tcu w) w"

definition get_chan :: "nat \<Rightarrow> ingenic_tcu_channel prog" where
  "get_chan c w =
     (if c < length (channels (tcu w)) then Ret (channels (tcu w) ! c) w else Fault)"

definition put_clk :: "nat \<Rightarrow> pointer \<Rightarrow> unit prog" where
  "put_clk c p w =
     (if c < length (channels (tcu w))
      then Ret () (w\<lparr>tcu := (tcu w)\<lparr>channels :=
             (channels (tcu w))[c := (channels (tcu w) ! c)\<lparr>clk := p\<rparr>]\<rparr>\<rparr>)
      else Fault)"

text \<open>The atomic bit operations of the kernel on the one-word bitmap \<open>requested\<close>. A bit
  number of \<open>BITS_PER_LONG\<close> or more addresses a word behind the bitmap.\<close>

definition test_and_set_bit :: "nat \<Rightarrow> bool prog" where
  "test_and_set_bit nr w =
     (if nr < BITS_PER_LONG
      then Ret (bit (requested (tcu w)) nr)
               (log (Test_and_set_bit nr)
                  (w\<lparr>tcu := (tcu w)\<lparr>requested := set_bit nr (requested (tcu w))\<rparr>\<rparr>))
      else Fault)"

definition clear_bit :: "nat \<Rightarrow> unit prog" where
  "clear_bit nr w =
     (if nr < BITS_PER_LONG
      then Ret ()
               (log (Clear_bit nr)
                  (w\<lparr>tcu := (tcu w)\<lparr>requested := unset_bit nr (requested (tcu w))\<rparr>\<rparr>))
      else Fault)"

subsection \<open>Registers\<close>

definition writel :: "u32 \<Rightarrow> pointer \<Rightarrow> unit prog" where
  "writel v a w = Ret () (log (Writel v a) (w\<lparr>mmio := (mmio w)(a := v)\<rparr>))"

text \<open>Modelled from the spec: \<open>tcu_timer_enable\<close> and \<open>tcu_timer_disable\<close>, inline
  helpers of linux/mfd/syscon/jz4740-tcu.h, which is not among the sources. The spec
  describes them as the enable and disable "by-channel-bit primitive for the shared
  register": arming asserts the channel's bit in the shared enable register, disarming
  clears it and touches nothing else. \<open>enable_reg w m\<close> is the content of the enable
  register behind the regmap \<open>m\<close>.\<close>

definition tcu_timer_enable :: "pointer \<Rightarrow> u32 \<Rightarrow> unit prog" where
  "tcu_timer_enable m ch w =
     Ret () (log (Tcu_timer_enable m ch)
               (w\<lparr>enable_reg := (enable_reg w)(m := set_bit (unat ch) (enable_reg w m))\<rparr>))"

definition tcu_timer_disable :: "pointer \<Rightarrow> u32 \<Rightarrow> unit prog" where
  "tcu_timer_disable m ch w =
     Ret () (log (Tcu_timer_disable m ch)
               (w\<lparr>enable_reg := (enable_reg w)(m := unset_bit (unat ch) (enable_reg w m))\<rparr>))"

text \<open>Modelled from the spec: \<open>regmap_update_bits\<close> of the kernel's regmap layer, "an
  atomic masked update (write value, with mask, ignoring specified bits)": the bits of
  the register under the mask take the bits of the value, the others keep theirs. The
  update takes place when the call reports success.\<close>

definition regmap_update_bits :: "env \<Rightarrow> pointer \<Rightarrow> u32 \<Rightarrow> u32 \<Rightarrow> u32 \<Rightarrow> int prog" where
  "regmap_update_bits e m r msk val w =
     (let err = regmap_update_bits_ret e m;
          w1 = log (Regmap_update_bits m r msk val) w
      in if err = 0
         then Ret err (w1\<lparr>regmap_regs := (regmap_regs w1)
                 (m := (regmap_regs w1 m)
                    (r := (regmap_regs w1 m r AND NOT msk) OR (val AND msk)))\<rparr>)
         else Ret err w1)"

subsection \<open>The event device\<close>

text \<open>\<open>struct clock_event_device\<close>, reduced to the field the interrupt handler reads: the
  callback the clock-event framework registers, which may do anything to the world
  (it may arm the channel again). \<open>None\<close> is the null pointer.\<close>

record clock_event_device =
  event_handler :: "(world \<Rightarrow> world) option"

record ingenic_clock_event_device =
  cevt :: clock_event_device
  channel :: nat
  name :: string

definition ingenic_tcu_cevt_set_state_shutdown :: "ingenic_clock_event_device \<Rightarrow> int prog" where
  "ingenic_tcu_cevt_set_state_shutdown jzcevt =
     seq (get_chan (channel jzcevt)) (\<lambda>ch.
     seq get_tcu (\<lambda>t.
     seq (tcu_timer_disable (ter t) (idx ch)) (\<lambda>_.
     ret 0)))"

definition ingenic_tcu_cevt_set_next :: "ulong \<Rightarrow> ingenic_clock_event_device \<Rightarrow> int prog" where
  "ingenic_tcu_cevt_set_next next jzcevt =
     seq (get_chan (channel jzcevt)) (\<lambda>ch.
     seq get_tcu (\<lambda>t.
       if next > 0xffff then ret (- EINVAL)
       else
         seq (writel (ucast next) (base t + REG_TDFRc (idx ch))) (\<lambda>_.
         seq (writel 0 (base t + REG_TCNTc (idx ch))) (\<lambda>_.
         seq (tcu_timer_enable (ter t) (idx ch)) (\<lambda>_.
         ret 0)))))"

definition call_event_handler :: "(world \<Rightarrow> world) \<Rightarrow> unit prog" where
  "call_event_handler h w = Ret () (h (log Event_handler_called w))"

definition ingenic_tcu_cevt_cb :: "ingenic_clock_event_device \<Rightarrow> int prog" where
  "ingenic_tcu_cevt_cb jzcevt =
     seq (get_chan (channel jzcevt)) (\<lambda>ch.
     seq get_tcu (\<lambda>t.
     seq (tcu_timer_disable (ter t) (idx ch)) (\<lambda>_.
     seq (case event_handler (cevt jzcevt) of
            Some h \<Rightarrow> call_event_handler h
          | None \<Rightarrow> ret ()) (\<lambda>_.
     ret IRQ_HANDLED))))"

subsection \<open>Kernel services\<close>

definition clk_get :: "env \<Rightarrow> string \<Rightarrow> pointer prog" where
  "clk_get e nm = call (Clk_get nm) (clk_get_ret e nm)"

definition clk_prepare_enable :: "env \<Rightarrow> pointer \<Rightarrow> int prog" where
  "clk_prepare_enable e p = call (Clk_prepare_enable p) (clk_prepare_enable_ret e p)"

definition clk_disable_unprepare :: "pointer \<Rightarrow> unit prog" where
  "clk_disable_unprepare p = call (Clk_disable_unprepare p) ()"

definition clk_put :: "pointer \<Rightarrow> unit prog" where
  "clk_put p = call (Clk_put p) ()"

definition clk_get_rate :: "env \<Rightarrow> pointer \<Rightarrow> ulong prog" where
  "clk_get_rate e p = call (Clk_get_rate p) (clk_get_rate_ret e p)"

definition of_parse_phandle :: "env \<Rightarrow> string \<Rightarrow> u32 \<Rightarrow> pointer prog" where
  "of_parse_phandle e nm i = call (Of_parse_phandle nm i) (of_parse_phandle_ret e nm i)"

definition syscon_node_to_regmap :: "env \<Rightarrow> pointer \<Rightarrow> pointer prog" where
  "syscon_node_to_regmap e n = call (Syscon_node_to_regmap n) (syscon_node_to_regmap_ret e n)"

definition kzalloc :: "env \<Rightarrow> allocation \<Rightarrow> pointer prog" where
  "kzalloc e a = call (Kzalloc a) (kzalloc_ret e a)"

definition kfree :: "allocation \<Rightarrow> pointer \<Rightarrow> unit prog" where
  "kfree a p = call (Kfree a p) ()"

definition syscon_regmap_lookup_by_phandle :: "env \<Rightarrow> string \<Rightarrow> pointer prog" where
  "syscon_regmap_lookup_by_phandle e nm =
     call (Syscon_regmap_lookup_by_phandle nm) (syscon_regmap_lookup_by_phandle_ret e nm)"

definition of_iomap :: "env \<Rightarrow> pointer prog" where
  "of_iomap e = call Of_iomap (of_iomap_ret e)"

definition irq_of_parse_and_map :: "env \<Rightarrow> u32 \<Rightarrow> u32 prog" where
  "irq_of_parse_and_map e i = call (Irq_of_parse_and_map i) (irq_of_parse_and_map_ret e i)"

definition request_irq :: "env \<Rightarrow> u32 \<Rightarrow> string \<Rightarrow> pointer \<Rightarrow> int prog" where
  "request_irq e virq nm dev = call (Request_irq virq nm dev) (request_irq_ret e virq)"

definition irq_dispose_mapping :: "u32 \<Rightarrow> unit prog" where
  "irq_dispose_mapping virq = call (Irq_dispose_mapping virq) ()"

definition clockevents_config_and_register :: "registration \<Rightarrow> unit prog" where
  "clockevents_config_and_register r = call (Clockevents_config_and_register r) ()"

definition of_property_count_elems_of_size :: "env \<Rightarrow> string \<Rightarrow> int prog" where
  "of_property_count_elems_of_size e nm =
     call (Of_property_count_elems nm) (of_property_count_elems_ret e nm)"

definition of_property_read_u32_index :: "env \<Rightarrow> string \<Rightarrow> u32 \<Rightarrow> (int \<times> u32) prog" where
  "of_property_read_u32_index e nm i =
     call (Of_property_read_u32_index nm i) (of_property_read_u32_index_ret e nm i)"

text \<open>\<open>ingenic_tcu_timer_names[idx]\<close>: the table has eight entries.\<close>

definition timer_name :: "u32 \<Rightarrow> string prog" where
  "timer_name i w =
     (if unat i < length ingenic_tcu_timer_names
      then Ret (ingenic_tcu_timer_names ! unat i) w else Fault)"

subsection \<open>Channel allocator\<close>

text \<open>The two labels at the end of \<open>ingenic_tcu_req_channel\<close>; \<open>out_clk_put\<close> falls
  through into \<open>out_release\<close>.\<close>

definition req_out_release :: "nat \<Rightarrow> int \<Rightarrow> int prog" where
  "req_out_release c err =
     seq (get_chan c) (\<lambda>ch.
     seq (clear_bit (unat (idx ch))) (\<lambda>_.
     ret err))"

definition req_out_clk_put :: "nat \<Rightarrow> int \<Rightarrow> int prog" where
  "req_out_clk_put c err =
     seq (get_chan c) (\<lambda>ch.
     seq (clk_put (clk ch)) (\<lambda>_.
     req_out_release c err))"

definition ingenic_tcu_req_channel :: "env \<Rightarrow> nat \<Rightarrow> int prog" where
  "ingenic_tcu_req_channel e c =
     seq (get_chan c) (\<lambda>ch.
     seq (test_and_set_bit (unat (idx ch))) (\<lambda>was_set.
       if was_set then ret (- EBUSY)
       else
         seq (clk_get e (''timer'' @ fmt_u (unat (idx ch)))) (\<lambda>p.
         seq (put_clk c p) (\<lambda>_.
           if IS_ERR p then req_out_release c (PTR_ERR p)
           else
             seq (clk_prepare_enable e p) (\<lambda>err.
               if err \<noteq> 0 then req_out_clk_put c err
               else ret 0)))))"

definition ingenic_tcu_free_channel :: "nat \<Rightarrow> unit prog" where
  "ingenic_tcu_free_channel c =
     seq (get_chan c) (\<lambda>ch.
     seq (clk_disable_unprepare (clk ch)) (\<lambda>_.
     seq (clk_put (clk ch)) (\<lambda>_.
     clear_bit (unat (idx ch)))))"

subsection \<open>Channel reset\<close>

definition ingenic_tcu_reset_channel :: "env \<Rightarrow> nat \<Rightarrow> int prog" where
  "ingenic_tcu_reset_channel e c =
     seq (get_chan c) (\<lambda>ch.
     seq (of_parse_phandle e ''tcsr'' (idx ch)) (\<lambda>tcsr_node.
       if tcsr_node = 0 then ret (- EINVAL)
       else
         seq (syscon_node_to_regmap e tcsr_node) (\<lambda>tcsr.
           if IS_ERR tcsr then ret (PTR_ERR tcsr)
           else regmap_update_bits e tcsr 0 (0xffff AND NOT TCSR_RESERVED_BITS) 0)))"

subsection \<open>Setting up one event device\<close>

text \<open>The three labels at the end of \<open>ingenic_tcu_setup_cevt\<close>, each falling through
  into the next.\<close>

definition err_out_free_channel :: "nat \<Rightarrow> int \<Rightarrow> int prog" where
  "err_out_free_channel c err =
     seq (ingenic_tcu_free_channel c) (\<lambda>_.
     ret err)"

definition err_out_kfree_jzcevt :: "nat \<Rightarrow> pointer \<Rightarrow> int \<Rightarrow> int prog" where
  "err_out_kfree_jzcevt c jzcevt err =
     seq (kfree Jzcevt_struct jzcevt) (\<lambda>_.
     err_out_free_channel c err)"

definition err_out_irq_dispose_mapping :: "nat \<Rightarrow> pointer \<Rightarrow> u32 \<Rightarrow> int \<Rightarrow> int prog" where
  "err_out_irq_dispose_mapping c jzcevt virq err =
     seq (irq_dispose_mapping virq) (\<lambda>_.
     err_out_kfree_jzcevt c jzcevt err)"

definition ingenic_tcu_setup_cevt :: "env \<Rightarrow> u32 \<Rightarrow> int prog" where
  "ingenic_tcu_setup_cevt e i =
     (let c = unat i in
      seq (ingenic_tcu_req_channel e c) (\<lambda>err.
        if err \<noteq> 0 then ret err
        else
          seq (ingenic_tcu_reset_channel e c) (\<lambda>err.
            if err \<noteq> 0 then err_out_free_channel c err
            else
              seq (get_chan c) (\<lambda>ch.
              seq (clk_get_rate e (clk ch)) (\<lambda>rate.
                if rate = 0 then err_out_free_channel c (- EINVAL)
                else
                  seq (kzalloc e Jzcevt_struct) (\<lambda>jzcevt.
                    if jzcevt = 0 then err_out_free_channel c (- ENOMEM)
                    else
                      seq (irq_of_parse_and_map e i) (\<lambda>virq.
                        if virq = 0 then err_out_kfree_jzcevt c jzcevt (- EINVAL)
                        else
                          seq (timer_name i) (\<lambda>nm.
                          seq (request_irq e virq nm jzcevt) (\<lambda>err.
                            if err \<noteq> 0 then err_out_irq_dispose_mapping c jzcevt virq err
                            else
                              seq (get_chan c) (\<lambda>ch.
                              seq (clockevents_config_and_register
                                     \<lparr>reg_device = jzcevt,
                                      reg_name = ''ingenic-tcu-chan'' @ fmt_u (unat (idx ch)),
                                      reg_oneshot = True,
                                      reg_rating = 200,
                                      reg_rate = rate,
                                      reg_min_delta = 10,
                                      reg_max_delta = push_bit 16 1 - 1\<rparr>) (\<lambda>_.
                              ret 0)))))))))))"

subsection \<open>Creating the unit\<close>

definition init_channels :: "nat \<Rightarrow> ingenic_tcu_channel list" where
  "init_channels n = map (\<lambda>i. \<lparr>idx = of_nat i, clk = 0\<rparr>) [0..<n]"

text \<open>\<open>out_free\<close> of \<open>ingenic_tcu_init_tcu\<close> frees the channel array (a null pointer when
  its allocation failed) and the unit, and returns the error pointer.\<close>

definition tcu_out_free :: "pointer \<Rightarrow> pointer \<Rightarrow> int \<Rightarrow> int prog" where
  "tcu_out_free chans t err =
     seq (kfree Channel_array chans) (\<lambda>_.
     seq (kfree Tcu_struct t) (\<lambda>_.
     ret err))"

text \<open>The result is the error code, 0 standing for the valid pointer: on success the
  new unit is the \<open>tcu\<close> of the world.\<close>

definition ingenic_tcu_init_tcu :: "env \<Rightarrow> u32 \<Rightarrow> int prog" where
  "ingenic_tcu_init_tcu e n =
     seq (kzalloc e Tcu_struct) (\<lambda>t.
       if t = 0 then ret (- ENOMEM)
       else
         seq (kzalloc e Channel_array) (\<lambda>chans.
           if chans = 0 then tcu_out_free chans t (- ENOMEM)
           else
             seq (syscon_regmap_lookup_by_phandle e ''ter'') (\<lambda>m.
               if IS_ERR m then tcu_out_free chans t (PTR_ERR m)
               else
                 seq (of_iomap e) (\<lambda>b.
                   if b = 0 then tcu_out_free chans t (- EINVAL)
                   else (\<lambda>w. Ret 0 (w\<lparr>tcu :=
                           \<lparr>base = b, num_channels = n, channels = init_channels (unat n),
                            requested = 0, ter = m\<rparr>\<rparr>))))))"

subsection \<open>The initializer\<close>

definition BUG_ON :: "bool \<Rightarrow> unit prog" where
  "BUG_ON cond w = (if cond then Bug w else Ret () w)"

text \<open>The loop of \<open>ingenic_tcu_init\<close> over the entries of the property \<open>timers\<close>, as a
  recursion on the list of the loop indices.\<close>

primrec init_timers :: "env \<Rightarrow> nat list \<Rightarrow> unit prog" where
  "init_timers e [] = ret ()"
| "init_timers e (i # rest) =
     seq (of_property_read_u32_index e ''timers'' (of_nat i)) (\<lambda>(err, timer).
     seq (BUG_ON (err \<noteq> 0)) (\<lambda>_.
     seq (ingenic_tcu_setup_cevt e timer) (\<lambda>err.
     seq (BUG_ON (err \<noteq> 0)) (\<lambda>_.
     init_timers e rest))))"

definition ingenic_tcu_init :: "env \<Rightarrow> int prog" where
  "ingenic_tcu_init e =
     seq (of_property_count_elems_of_size e ''timers'') (\<lambda>num_timers.
       if num_timers < 0 then ret (- EINVAL)
       else
         seq (of_property_count_elems_of_size e ''interrupts'') (\<lambda>num_channels.
           if num_channels < 0 \<or> num_channels > 8 then ret (- EINVAL)
           else
             seq (ingenic_tcu_init_tcu e (of_int num_channels)) (\<lambda>err.
             seq (BUG_ON (err \<noteq> 0)) (\<lambda>_.
             seq (init_timers e [0..<nat num_timers]) (\<lambda>_.
             ret 0)))))"

subsection \<open>A concrete platform\<close>

text \<open>A unit with two channels mapped at the JZ4740's TCU window, as
  \<open>ingenic_tcu_init_tcu\<close> leaves it (\<open>example_fresh\<close>) and after both channels have been
  set up as event devices (\<open>example_running\<close>), and kernel services that all succeed
  (\<open>example_env\<close>), for a device node whose \<open>timers\<close> property is the single cell 0.\<close>

definition example_env :: env where
  "example_env =
     \<lparr>clk_get_ret = (\<lambda>nm. if nm = ''timer0'' then 0x80001000
                          else if nm = ''timer1'' then 0x80001100 else - 2),
      clk_prepare_enable_ret = (\<lambda>_. 0),
      clk_get_rate_ret = (\<lambda>_. 12000000),
      of_parse_phandle_ret = (\<lambda>_ _. 0x80002000),
      syscon_node_to_regmap_ret = (\<lambda>_. 0x80002100),
      regmap_update_bits_ret = (\<lambda>_. 0),
      kzalloc_ret = (\<lambda>a. case a of Tcu_struct \<Rightarrow> 0x80003000
                             | Channel_array \<Rightarrow> 0x80003100
                             | Jzcevt_struct \<Rightarrow> 0x80003200),
      syscon_regmap_lookup_by_phandle_ret = (\<lambda>_. 0x80004000),
      of_iomap_ret = 0xb0002000,
      irq_of_parse_and_map_ret = (\<lambda>i. 21 + i),
      request_irq_ret = (\<lambda>_. 0),
      of_property_count_elems_ret = (\<lambda>nm. if nm = ''timers'' then 1
                                          else if nm = ''interrupts'' then 2 else - 22),
      of_property_read_u32_index_ret = (\<lambda>_ _. (0, 0))\<rparr>"

definition example_fresh :: world where
  "example_fresh =
     \<lparr>tcu = \<lparr>base = 0xb0002000, num_channels = 2,
              channels = [\<lparr>idx = 0, clk = 0\<rparr>, \<lparr>idx = 1, clk = 0\<rparr>],
              requested = 0, ter = 0x80004000\<rparr>,
      mmio = (\<lambda>_. 0), enable_reg = (\<lambda>_. 0), regmap_regs = (\<lambda>_ _. 0xffff),
      trace = []\<rparr>"

definition example_running :: world where
  "example_running =
     \<lparr>tcu = \<lparr>base = 0xb0002000, num_channels = 2,
              channels = [\<lparr>idx = 0, clk = 0x80001000\<rparr>, \<lparr>idx = 1, clk = 0x80001100\<rparr>],
              requested = 3, ter = 0x80004000\<rparr>,
      mmio = (\<lambda>_. 0), enable_reg = (\<lambda>_. 2), regmap_regs = (\<lambda>_ _. 0),
      trace = []\<rparr>"

text \<open>The event device of channel 1, once with a callback of the framework (one that
  arms nothing and leaves the world as it is) and once with none registered.\<close>

definition example_jzcevt :: ingenic_clock_event_device where
  "example_jzcevt =
     \<lparr>cevt = \<lparr>event_handler = Some (\<lambda>w. w)\<rparr>, channel = 1, name = ''ingenic-tcu-chan1''\<rparr>"

definition example_jzcevt_unbound :: ingenic_clock_event_device where
  "example_jzcevt_unbound =
     \<lparr>cevt = \<lparr>event_handler = None\<rparr>, channel = 1, name = ''ingenic-tcu-chan1''\<rparr>"

text \<open>The same platform with a device tree whose \<open>timers\<close> property names channel 2,
  one past the two channels the unit has.\<close>

definition example_env_oob :: env where
  "example_env_oob = example_env\<lparr>of_property_read_u32_index_ret := \<lambda>_ _. (0, 2)\<rparr>"

section \<open>Properties\<close>

lemmas prog_defs = seq_def ret_def call_def log_def get_tcu_def get_chan_def put_clk_def
  test_and_set_bit_def clear_bit_def writel_def tcu_timer_enable_def tcu_timer_disable_def

lemmas reg_defs = REG_TDFRc_def REG_TCNTc_def REG_TDFR0_def REG_TCNT0_def CHANNEL_STRIDE_def

lemmas example_defs = example_env_def example_fresh_def example_running_def
  example_jzcevt_def example_jzcevt_unbound_def

lemmas service_defs = clk_get_def clk_prepare_enable_def clk_put_def clk_disable_unprepare_def
  clk_get_rate_def of_parse_phandle_def syscon_node_to_regmap_def kzalloc_def kfree_def
  syscon_regmap_lookup_by_phandle_def of_iomap_def irq_of_parse_and_map_def request_irq_def
  irq_dispose_mapping_def clockevents_config_and_register_def
  of_property_count_elems_of_size_def of_property_read_u32_index_def timer_name_def
  regmap_update_bits_def

lemmas driver_defs = ingenic_tcu_req_channel_def req_out_release_def req_out_clk_put_def
  ingenic_tcu_free_channel_def ingenic_tcu_reset_channel_def
  err_out_free_channel_def err_out_kfree_jzcevt_def err_out_irq_dispose_mapping_def
  ingenic_tcu_setup_cevt_def tcu_out_free_def ingenic_tcu_init_tcu_def init_channels_def
  BUG_ON_def ingenic_tcu_init_def

subsection \<open>Arming a channel\<close>

lemma reload_counter_distinct: "b + REG_TDFRc i \<noteq> b + REG_TCNTc i"
  by (simp add: REG_TDFRc_def REG_TCNTc_def REG_TDFR0_def REG_TCNT0_def)

text \<open>
  Claim C3. For every tick count up to 65535, \<open>ingenic_tcu_cevt_set_next\<close> returns 0 and
  what it does to the world is exactly three steps in this order: it writes the tick
  count to the channel's reload register \<open>TDFR\<close>, writes 0 to the channel's counter
  \<open>TCNT\<close>, and last sets the channel's bit of the shared enable register. Afterwards the
  reload register holds the tick count and the counter holds 0; the second write
  cannot overwrite the first, the two registers being 8 bytes apart. Nothing else of the
  world changes.
\<close>

theorem set_next_arms:
  assumes "next \<le> 0xffff" and "channel jzcevt < length (channels (tcu w))"
  shows "let t = tcu w; i = idx (channels t ! channel jzcevt);
             reload = base t + REG_TDFRc i; counter = base t + REG_TCNTc i
         in \<exists>w'. ingenic_tcu_cevt_set_next next jzcevt w = Ret 0 w'
              \<and> trace w' = trace w @
                   [Writel next reload, Writel 0 counter, Tcu_timer_enable (ter t) i]
              \<and> mmio w' reload = next \<and> mmio w' counter = 0
              \<and> mmio w' = (mmio w)(reload := next, counter := 0)
              \<and> enable_reg w' =
                   (enable_reg w)(ter t := set_bit (unat i) (enable_reg w (ter t)))
              \<and> (unat i < 32 \<longrightarrow> bit (enable_reg w' (ter t)) (unat i))
              \<and> tcu w' = tcu w \<and> regmap_regs w' = regmap_regs w"
proof -
  from assms(1) have "\<not> 0xffff < next" by (simp add: not_less)
  with assms(2) reload_counter_distinct show ?thesis
    by (simp add: ingenic_tcu_cevt_set_next_def prog_defs Let_def bit_set_bit_iff)
qed

theorem set_next_arms_witness:
  "(1000 :: ulong) \<le> 0xffff
   \<and> channel example_jzcevt < length (channels (tcu example_running))
   \<and> unat (idx (channels (tcu example_running) ! channel example_jzcevt)) < 32
   \<and> (\<exists>w'. ingenic_tcu_cevt_set_next 1000 example_jzcevt example_running = Ret 0 w'
         \<and> trace w' = [Writel 1000 0xb0002050, Writel 0 0xb0002058,
                        Tcu_timer_enable 0x80004000 1]
         \<and> mmio w' 0xb0002050 = 1000 \<and> mmio w' 0xb0002058 = 0
         \<and> bit (enable_reg w' 0x80004000) (1 :: nat))"
  using set_next_arms [of 1000 example_jzcevt example_running]
  by (auto simp add: example_defs reg_defs Let_def)

text \<open>
  Claim C4. For every tick count above 65535, \<open>ingenic_tcu_cevt_set_next\<close> returns
  \<open>-EINVAL\<close> and the world is the one it was called in: no register is written and the
  enable register is not touched, the range check coming before the first write.
\<close>

theorem set_next_rejects:
  assumes "next > 0xffff" and "channel jzcevt < length (channels (tcu w))"
  shows "ingenic_tcu_cevt_set_next next jzcevt w = Ret (- EINVAL) w"
  using assms
  by (simp add: ingenic_tcu_cevt_set_next_def prog_defs)

theorem set_next_rejects_witness:
  "(65536 :: ulong) > 0xffff
   \<and> channel example_jzcevt < length (channels (tcu example_running))
   \<and> ingenic_tcu_cevt_set_next 65536 example_jzcevt example_running
       = Ret (- 22) example_running"
  using set_next_rejects [of 65536 example_jzcevt example_running]
  by (simp add: example_defs EINVAL_def)

subsection \<open>The interrupt handler\<close>

text \<open>
  Claim C7. When the framework has registered a callback \<open>h\<close>, the interrupt handler
  \<open>ingenic_tcu_cevt_cb\<close> of a channel first disarms the channel and only then calls
  \<open>h\<close>: the world \<open>h\<close> is called in is the world after \<open>tcu_timer_disable\<close>, the bit of
  the channel in the shared enable register is clear in it, and in its trace the
  disable comes before the call of \<open>h\<close>. The handler returns \<open>IRQ_HANDLED\<close> with the
  world \<open>h\<close> leaves.
\<close>

theorem cb_disarms_first:
  assumes "channel jzcevt < length (channels (tcu w))"
    and "event_handler (cevt jzcevt) = Some h"
  shows "let t = tcu w; i = idx (channels t ! channel jzcevt) in
         \<exists>w1. tcu_timer_disable (ter t) i w = Ret () w1
            \<and> \<not> bit (enable_reg w1 (ter t)) (unat i)
            \<and> trace w1 = trace w @ [Tcu_timer_disable (ter t) i]
            \<and> ingenic_tcu_cevt_cb jzcevt w
                = Ret IRQ_HANDLED (h (log Event_handler_called w1))
            \<and> trace (log Event_handler_called w1)
                = trace w @ [Tcu_timer_disable (ter t) i, Event_handler_called]
            \<and> \<not> bit (enable_reg (log Event_handler_called w1) (ter t)) (unat i)"
  using assms
  by (simp add: ingenic_tcu_cevt_cb_def call_event_handler_def prog_defs Let_def
      bit_unset_bit_iff)

theorem cb_disarms_first_witness:
  "channel example_jzcevt < length (channels (tcu example_running))
   \<and> event_handler (cevt example_jzcevt) = Some (\<lambda>w. w)
   \<and> bit (enable_reg example_running 0x80004000) (1 :: nat)
   \<and> (\<exists>w1. tcu_timer_disable 0x80004000 1 example_running = Ret () w1
         \<and> \<not> bit (enable_reg w1 0x80004000) (1 :: nat)
         \<and> ingenic_tcu_cevt_cb example_jzcevt example_running
             = Ret IRQ_HANDLED (log Event_handler_called w1)
         \<and> trace (log Event_handler_called w1)
             = [Tcu_timer_disable 0x80004000 1, Event_handler_called])"
  using cb_disarms_first [of example_jzcevt example_running "\<lambda>w. w"]
  by (auto simp add: example_defs Let_def)

text \<open>
  Claim C10. When no callback is registered (the pointer \<open>event_handler\<close> is null), the
  interrupt handler still disarms the channel and returns \<open>IRQ_HANDLED\<close>, and it calls
  nothing: the world it leaves differs from the one it was called in by the cleared
  enable bit and by the one entry of the disable in the trace.
\<close>

theorem cb_null_handler:
  assumes "channel jzcevt < length (channels (tcu w))"
    and "event_handler (cevt jzcevt) = None"
  shows "let t = tcu w; i = idx (channels t ! channel jzcevt) in
         \<exists>w1. ingenic_tcu_cevt_cb jzcevt w = Ret IRQ_HANDLED w1
            \<and> w1 = w\<lparr>enable_reg :=
                       (enable_reg w)(ter t := unset_bit (unat i) (enable_reg w (ter t))),
                     trace := trace w @ [Tcu_timer_disable (ter t) i]\<rparr>
            \<and> \<not> bit (enable_reg w1 (ter t)) (unat i)
            \<and> trace w1 = trace w @ [Tcu_timer_disable (ter t) i]"
  using assms
  by (simp add: ingenic_tcu_cevt_cb_def call_event_handler_def prog_defs Let_def
      bit_unset_bit_iff)

theorem cb_null_handler_witness:
  "channel example_jzcevt_unbound < length (channels (tcu example_running))
   \<and> event_handler (cevt example_jzcevt_unbound) = None
   \<and> bit (enable_reg example_running 0x80004000) (1 :: nat)
   \<and> (\<exists>w1. ingenic_tcu_cevt_cb example_jzcevt_unbound example_running = Ret IRQ_HANDLED w1
         \<and> \<not> bit (enable_reg w1 0x80004000) (1 :: nat)
         \<and> trace w1 = [Tcu_timer_disable 0x80004000 1])"
  using cb_null_handler [of example_jzcevt_unbound example_running]
  by (auto simp add: example_defs Let_def)

subsection \<open>Claiming a channel\<close>

lemma set_bit_idem: "bit a n \<Longrightarrow> set_bit n a = (a :: 'a :: len word)"
  by (rule bit_eqI) (auto simp add: bit_set_bit_iff)

lemma unset_set_bit_free: "\<not> bit a n \<Longrightarrow> unset_bit n (set_bit n a) = (a :: 'a :: len word)"
  by (rule bit_eqI) (auto simp add: bit_set_bit_iff bit_unset_bit_iff)

lemma bit_requested_bound: "bit (a :: ulong) n \<Longrightarrow> n < BITS_PER_LONG"
  by (auto simp add: BITS_PER_LONG_def dest: bit_imp_le_length)

text \<open>An error pointer decodes to an error number between \<open>-MAX_ERRNO\<close> and \<open>-1\<close>.\<close>

lemma IS_ERR_negative:
  assumes "IS_ERR p"
  shows "- 4095 \<le> PTR_ERR p \<and> PTR_ERR p < 0"
proof -
  from assms have u: "2 ^ 32 - 4095 \<le> uint p"
    by (simp add: IS_ERR_def MAX_ERRNO_def word_le_def)
  have l: "uint p < 2 ^ 32"
    using uint_lt2p [of p] by simp
  have "sint p = signed_take_bit 31 (uint p)"
    by (simp add: sint_uint)
  also have "\<dots> = signed_take_bit 31 (uint p - 2 ^ 32)"
    by (simp add: signed_take_bit_eq_iff_take_bit_eq take_bit_eq_mod)
  also have "\<dots> = uint p - 2 ^ 32"
    using u l by (intro signed_take_bit_int_eq_self) simp_all
  finally show ?thesis
    using u l by (simp add: PTR_ERR_def)
qed

text \<open>
  Claim C5. When the bit of a channel is already set in the bitmap \<open>requested\<close>,
  \<open>ingenic_tcu_req_channel\<close> returns \<open>-EBUSY\<close> and has done nothing but the test: the
  world it leaves is the one it was called in with the test-and-set added to the trace.
  The bitmap has the value it had, the clock pointer of the channel is the owner's, and
  no call into the clock framework was made.
\<close>

theorem req_channel_busy:
  assumes "c < length (channels (tcu w))"
    and "bit (requested (tcu w)) (unat (idx (channels (tcu w) ! c)))"
  shows "ingenic_tcu_req_channel e c w
         = Ret (- EBUSY) (log (Test_and_set_bit (unat (idx (channels (tcu w) ! c)))) w)"
  using assms bit_requested_bound [OF assms(2)]
  by (simp add: ingenic_tcu_req_channel_def prog_defs set_bit_idem)

theorem req_channel_busy_witness:
  "1 < length (channels (tcu example_running))
   \<and> bit (requested (tcu example_running)) (unat (idx (channels (tcu example_running) ! 1)))
   \<and> ingenic_tcu_req_channel example_env 1 example_running
       = Ret (- 16) (example_running\<lparr>trace := [Test_and_set_bit 1]\<rparr>)"
  using req_channel_busy [of 1 example_running example_env]
  by (simp add: example_defs EBUSY_def log_def bit_iff_odd)

text \<open>
  Claim C6, as amended. Take a channel whose bit is free, so that the call gets past
  the test-and-set. If the lookup of its clock fails, \<open>ingenic_tcu_req_channel\<close> clears
  the bit it has just set and returns the error of the lookup, a negative number. If
  the lookup succeeds and enabling the clock fails, it puts the clock back, then clears
  the bit, and returns the error of the enabling. In both cases the bitmap is what it
  was before the call, and whenever such a call returns an error the bit of the channel
  is clear. The claim as written says this of any failed call; the \<open>-EBUSY\<close> failure
  is the exception, shown after the witness.
\<close>

theorem req_channel_rollback:
  assumes "c < length (channels (tcu w))"
    and "i = unat (idx (channels (tcu w) ! c))"
    and "i < BITS_PER_LONG"
    and "\<not> bit (requested (tcu w)) i"
    and "nm = ''timer'' @ fmt_u i"
    and "p = clk_get_ret e nm"
    and "err = clk_prepare_enable_ret e p"
    and "t' = (tcu w)\<lparr>channels := (channels (tcu w))[c := (channels (tcu w) ! c)\<lparr>clk := p\<rparr>]\<rparr>"
  shows "(IS_ERR p \<longrightarrow>
            PTR_ERR p < 0
            \<and> ingenic_tcu_req_channel e c w
              = Ret (PTR_ERR p)
                  (w\<lparr>tcu := t',
                     trace := trace w @ [Test_and_set_bit i, Clk_get nm, Clear_bit i]\<rparr>))
       \<and> (\<not> IS_ERR p \<and> err \<noteq> 0 \<longrightarrow>
            ingenic_tcu_req_channel e c w
            = Ret err
                (w\<lparr>tcu := t',
                   trace := trace w @ [Test_and_set_bit i, Clk_get nm, Clk_prepare_enable p,
                                       Clk_put p, Clear_bit i]\<rparr>))
       \<and> requested t' = requested (tcu w)
       \<and> (\<forall>r w'. ingenic_tcu_req_channel e c w = Ret r w' \<and> r \<noteq> 0
             \<longrightarrow> \<not> bit (requested (tcu w')) i)"
  using assms IS_ERR_negative [of p]
  by (auto simp add: ingenic_tcu_req_channel_def req_out_release_def req_out_clk_put_def
      clk_get_def clk_prepare_enable_def clk_put_def prog_defs Let_def unset_set_bit_free
      bit_unset_bit_iff)

theorem req_channel_rollback_witness:
  "(1 < length (channels (tcu example_fresh))
    \<and> unat (idx (channels (tcu example_fresh) ! 1)) < BITS_PER_LONG
    \<and> \<not> bit (requested (tcu example_fresh)) 1
    \<and> IS_ERR (- 2)
    \<and> ingenic_tcu_req_channel (example_env\<lparr>clk_get_ret := \<lambda>_. - 2\<rparr>) 1 example_fresh
        = Ret (- 2)
            (example_fresh
               \<lparr>tcu := (tcu example_fresh)\<lparr>channels := [\<lparr>idx = 0, clk = 0\<rparr>, \<lparr>idx = 1, clk = - 2\<rparr>]\<rparr>,
                trace := [Test_and_set_bit 1, Clk_get ''timer1'', Clear_bit 1]\<rparr>))
   \<and> (\<not> IS_ERR 0x80001100
    \<and> ingenic_tcu_req_channel (example_env\<lparr>clk_prepare_enable_ret := \<lambda>_. - 5\<rparr>) 1 example_fresh
        = Ret (- 5)
            (example_fresh
               \<lparr>tcu := (tcu example_fresh)
                         \<lparr>channels := [\<lparr>idx = 0, clk = 0\<rparr>, \<lparr>idx = 1, clk = 0x80001100\<rparr>]\<rparr>,
                trace := [Test_and_set_bit 1, Clk_get ''timer1'', Clk_prepare_enable 0x80001100,
                          Clk_put 0x80001100, Clear_bit 1]\<rparr>))"
  using
    req_channel_rollback [of 1 example_fresh 1 "''timer1''" "- 2"
      "example_env\<lparr>clk_get_ret := \<lambda>_. - 2\<rparr>" 0
      "(tcu example_fresh)\<lparr>channels := [\<lparr>idx = 0, clk = 0\<rparr>, \<lparr>idx = 1, clk = - 2\<rparr>]\<rparr>"]
    req_channel_rollback [of 1 example_fresh 1 "''timer1''" "0x80001100"
      "example_env\<lparr>clk_prepare_enable_ret := \<lambda>_. - 5\<rparr>" "- 5"
      "(tcu example_fresh)\<lparr>channels := [\<lparr>idx = 0, clk = 0\<rparr>, \<lparr>idx = 1, clk = 0x80001100\<rparr>]\<rparr>"]
  by (simp add: example_defs BITS_PER_LONG_def IS_ERR_def MAX_ERRNO_def PTR_ERR_def fmt_u.simps digit_def)

text \<open>
  Claim C6 as written does not hold of every failed call: on a channel that is already
  claimed the call fails with \<open>-EBUSY\<close> and the bit of the channel is still set
  afterwards, as it must be, since it belongs to the earlier owner. Channel 1 of the
  running unit is such a channel.
\<close>

theorem req_channel_busy_keeps_bit:
  "ingenic_tcu_req_channel example_env 1 example_running
     = Ret (- 16) (example_running\<lparr>trace := [Test_and_set_bit 1]\<rparr>)
   \<and> (- 16 :: int) \<noteq> 0
   \<and> bit (requested (tcu (example_running\<lparr>trace := [Test_and_set_bit 1]\<rparr>))) (1 :: nat)"
  by (simp add: ingenic_tcu_req_channel_def prog_defs example_defs EBUSY_def
      BITS_PER_LONG_def bit_iff_odd set_bit_idem)

subsection \<open>Resetting a channel\<close>

lemma tcsr_mask: "(0xffff AND NOT TCSR_RESERVED_BITS) = (0xffc0 :: u32)"
  by (simp add: TCSR_RESERVED_BITS_def)

lemma tcsr_keep: "(- 65473 :: u32) = 0xffff003f"
  by simp

text \<open>
  Claim C9. \<open>ingenic_tcu_reset_channel\<close> resolves the register block of the channel in
  two steps (the node behind the \<open>tcsr\<close> phandle of the channel, then its regmap). If
  either fails it returns the error (\<open>-EINVAL\<close> for a missing node, the error of the
  regmap otherwise) and no register is written. Otherwise it makes exactly one call of
  \<open>regmap_update_bits\<close>, on register 0 of that block with mask \<open>0xffc0\<close> and value 0, and
  returns its result: when the update succeeds, bits 6 to 15 of the register are clear,
  its lowest six bits and everything else are as before.
\<close>

theorem reset_channel_spec:
  assumes "c < length (channels (tcu w))"
    and "j = idx (channels (tcu w) ! c)"
    and "node = of_parse_phandle_ret e ''tcsr'' j"
    and "m = syscon_node_to_regmap_ret e node"
    and "r = regmap_update_bits_ret e m"
  shows "(node = 0 \<longrightarrow>
            ingenic_tcu_reset_channel e c w
            = Ret (- EINVAL) (w\<lparr>trace := trace w @ [Of_parse_phandle ''tcsr'' j]\<rparr>))
       \<and> (node \<noteq> 0 \<and> IS_ERR m \<longrightarrow>
            ingenic_tcu_reset_channel e c w
            = Ret (PTR_ERR m)
                (w\<lparr>trace := trace w @
                      [Of_parse_phandle ''tcsr'' j, Syscon_node_to_regmap node]\<rparr>))
       \<and> (node \<noteq> 0 \<and> \<not> IS_ERR m \<longrightarrow>
            (\<exists>w'. ingenic_tcu_reset_channel e c w = Ret r w'
               \<and> trace w' = trace w @
                    [Of_parse_phandle ''tcsr'' j, Syscon_node_to_regmap node,
                     Regmap_update_bits m 0 0xffc0 0]
               \<and> tcu w' = tcu w \<and> mmio w' = mmio w \<and> enable_reg w' = enable_reg w
               \<and> (r = 0 \<longrightarrow> regmap_regs w' =
                     (regmap_regs w)
                       (m := (regmap_regs w m)(0 := regmap_regs w m 0 AND 0xffff003f)))
               \<and> (r = 0 \<longrightarrow> regmap_regs w' m 0 AND 0xffc0 = 0
                             \<and> regmap_regs w' m 0 AND 0x3f = regmap_regs w m 0 AND 0x3f)
               \<and> (r \<noteq> 0 \<longrightarrow> regmap_regs w' = regmap_regs w)))"
  using assms
  by (auto simp add: ingenic_tcu_reset_channel_def regmap_update_bits_def of_parse_phandle_def
      syscon_node_to_regmap_def prog_defs Let_def tcsr_mask tcsr_keep and.assoc)

theorem reset_channel_spec_witness:
  "1 < length (channels (tcu example_fresh))
   \<and> ingenic_tcu_reset_channel (example_env\<lparr>of_parse_phandle_ret := \<lambda>_ _. 0\<rparr>) 1 example_fresh
       = Ret (- 22) (example_fresh\<lparr>trace := [Of_parse_phandle ''tcsr'' 1]\<rparr>)
   \<and> IS_ERR (- 19)
   \<and> ingenic_tcu_reset_channel (example_env\<lparr>syscon_node_to_regmap_ret := \<lambda>_. - 19\<rparr>) 1
         example_fresh
       = Ret (- 19) (example_fresh\<lparr>trace := [Of_parse_phandle ''tcsr'' 1,
                                                Syscon_node_to_regmap 0x80002000]\<rparr>)
   \<and> \<not> IS_ERR 0x80002100
   \<and> regmap_regs example_fresh 0x80002100 0 = 0xffff
   \<and> (\<exists>w'. ingenic_tcu_reset_channel example_env 1 example_fresh = Ret 0 w'
         \<and> trace w' = [Of_parse_phandle ''tcsr'' 1, Syscon_node_to_regmap 0x80002000,
                        Regmap_update_bits 0x80002100 0 0xffc0 0]
         \<and> regmap_regs w' 0x80002100 0 = 0x3f)"
proof -
  let ?no_node = "example_env\<lparr>of_parse_phandle_ret := \<lambda>_ _. 0\<rparr>"
  let ?no_regmap = "example_env\<lparr>syscon_node_to_regmap_ret := \<lambda>_. - 19\<rparr>"
  have len: "1 < length (channels (tcu example_fresh))"
    and j: "(1 :: u32) = idx (channels (tcu example_fresh) ! 1)"
    by (simp_all add: example_defs)
  have e: "IS_ERR (- 19)" "\<not> IS_ERR 0x80002100"
    by (simp_all add: IS_ERR_def MAX_ERRNO_def)
  have a: "ingenic_tcu_reset_channel ?no_node 1 example_fresh
           = Ret (- 22) (example_fresh\<lparr>trace := [Of_parse_phandle ''tcsr'' 1]\<rparr>)"
  proof -
    have "0 = of_parse_phandle_ret ?no_node ''tcsr'' 1"
      and "0x80002100 = syscon_node_to_regmap_ret ?no_node 0"
      and "0 = regmap_update_bits_ret ?no_node 0x80002100"
      by (simp_all add: example_defs)
    from reset_channel_spec [OF len j this]
    show ?thesis by (simp add: EINVAL_def example_fresh_def)
  qed
  have b: "ingenic_tcu_reset_channel ?no_regmap 1 example_fresh
           = Ret (- 19) (example_fresh\<lparr>trace := [Of_parse_phandle ''tcsr'' 1,
                                                    Syscon_node_to_regmap 0x80002000]\<rparr>)"
  proof -
    have "0x80002000 = of_parse_phandle_ret ?no_regmap ''tcsr'' 1"
      and "- 19 = syscon_node_to_regmap_ret ?no_regmap 0x80002000"
      and "0 = regmap_update_bits_ret ?no_regmap (- 19)"
      by (simp_all add: example_defs)
    from reset_channel_spec [OF len j this] e
    show ?thesis by (simp add: PTR_ERR_def example_fresh_def)
  qed
  have c: "\<exists>w'. ingenic_tcu_reset_channel example_env 1 example_fresh = Ret 0 w'
         \<and> trace w' = [Of_parse_phandle ''tcsr'' 1, Syscon_node_to_regmap 0x80002000,
                        Regmap_update_bits 0x80002100 0 0xffc0 0]
         \<and> regmap_regs w' 0x80002100 0 = 0x3f"
  proof -
    have "0x80002000 = of_parse_phandle_ret example_env ''tcsr'' 1"
      and "0x80002100 = syscon_node_to_regmap_ret example_env 0x80002000"
      and "0 = regmap_update_bits_ret example_env 0x80002100"
      by (simp_all add: example_defs)
    from reset_channel_spec [OF len j this] e
    obtain w' where "ingenic_tcu_reset_channel example_env 1 example_fresh = Ret 0 w'"
      and "trace w' = trace example_fresh @
             [Of_parse_phandle ''tcsr'' 1, Syscon_node_to_regmap 0x80002000,
              Regmap_update_bits 0x80002100 0 0xffc0 0]"
      and "regmap_regs w' = (regmap_regs example_fresh)
             (0x80002100 := (regmap_regs example_fresh 0x80002100)
                (0 := regmap_regs example_fresh 0x80002100 0 AND 0xffff003f))"
      by auto
    then show ?thesis
      by (simp add: example_fresh_def)
  qed
  have "regmap_regs example_fresh 0x80002100 0 = 0xffff"
    by (simp add: example_fresh_def)
  with len a b c e show ?thesis
    by blast
qed

subsection \<open>Unwinding a failed setup\<close>

text \<open>Releasing a channel: the clock is disabled, then put back, then the bit of the
  channel is cleared.\<close>

lemma free_channel_eval:
  assumes "c < length (channels (tcu w))"
    and "unat (idx (channels (tcu w) ! c)) < BITS_PER_LONG"
  shows "ingenic_tcu_free_channel c w
         = Ret () (w\<lparr>tcu := (tcu w)\<lparr>requested :=
                       unset_bit (unat (idx (channels (tcu w) ! c))) (requested (tcu w))\<rparr>,
                     trace := trace w @
                       [Clk_disable_unprepare (clk (channels (tcu w) ! c)),
                        Clk_put (clk (channels (tcu w) ! c)),
                        Clear_bit (unat (idx (channels (tcu w) ! c)))]\<rparr>)"
  using assms
  by (simp add: ingenic_tcu_free_channel_def clk_disable_unprepare_def clk_put_def prog_defs)

text \<open>
  Claim C8. Let \<open>ingenic_tcu_setup_cevt\<close> get as far as the allocation of the event
  device: the channel is claimed, reset, its clock has a rate and the allocation
  succeeds (the list \<open>acquired\<close> is the trace up to the mapping of the interrupt). If
  the interrupt cannot be mapped, no mapping is disposed of: the device is freed, then
  the channel is released, and the call returns \<open>-EINVAL\<close>. If the interrupt is mapped
  and its registration fails, the mapping is disposed of first, then the device is
  freed, then the channel is released, and the call returns the error of the
  registration. Releasing the channel is: disable the clock, put it back, clear the
  bit; in both cases the bit of the channel is clear afterwards.
\<close>

theorem setup_cevt_unwinds:
  assumes "c = unat i" and "c < length (channels (tcu w))"
    and "ch = channels (tcu w) ! c"
    and "j = unat (idx ch)" and "j < BITS_PER_LONG" and "\<not> bit (requested (tcu w)) j"
    and "nm = ''timer'' @ fmt_u j" and "p = clk_get_ret e nm"
    and "\<not> IS_ERR p" and "clk_prepare_enable_ret e p = 0"
    and "node = of_parse_phandle_ret e ''tcsr'' (idx ch)" and "node \<noteq> 0"
    and "m = syscon_node_to_regmap_ret e node" and "\<not> IS_ERR m"
    and "regmap_update_bits_ret e m = 0"
    and "clk_get_rate_ret e p \<noteq> 0"
    and "jz = kzalloc_ret e Jzcevt_struct" and "jz \<noteq> 0"
    and "virq = irq_of_parse_and_map_ret e i"
    and "acquired = [Test_and_set_bit j, Clk_get nm, Clk_prepare_enable p,
                     Of_parse_phandle ''tcsr'' (idx ch), Syscon_node_to_regmap node,
                     Regmap_update_bits m 0 0xffc0 0, Clk_get_rate p, Kzalloc Jzcevt_struct,
                     Irq_of_parse_and_map i]"
  shows "(virq = 0 \<longrightarrow>
           (\<exists>w'. ingenic_tcu_setup_cevt e i w = Ret (- EINVAL) w'
              \<and> trace w' = trace w @ acquired @
                   [Kfree Jzcevt_struct jz,
                    Clk_disable_unprepare p, Clk_put p, Clear_bit j]
              \<and> \<not> bit (requested (tcu w')) j))
       \<and> (virq \<noteq> 0 \<and> c < length ingenic_tcu_timer_names \<and> request_irq_ret e virq \<noteq> 0 \<longrightarrow>
           (\<exists>w'. ingenic_tcu_setup_cevt e i w = Ret (request_irq_ret e virq) w'
              \<and> trace w' = trace w @ acquired @
                   [Request_irq virq (ingenic_tcu_timer_names ! c) jz,
                    Irq_dispose_mapping virq,
                    Kfree Jzcevt_struct jz,
                    Clk_disable_unprepare p, Clk_put p, Clear_bit j]
              \<and> \<not> bit (requested (tcu w')) j))"
  using assms
  by (simp add: ingenic_tcu_setup_cevt_def ingenic_tcu_req_channel_def
      ingenic_tcu_reset_channel_def regmap_update_bits_def
      err_out_free_channel_def err_out_kfree_jzcevt_def err_out_irq_dispose_mapping_def
      ingenic_tcu_free_channel_def timer_name_def
      clk_get_def clk_prepare_enable_def clk_put_def clk_disable_unprepare_def clk_get_rate_def
      of_parse_phandle_def syscon_node_to_regmap_def kzalloc_def kfree_def
      irq_of_parse_and_map_def request_irq_def irq_dispose_mapping_def
      prog_defs Let_def tcsr_mask bit_unset_bit_iff)

theorem setup_cevt_unwinds_witness:
  "irq_of_parse_and_map_ret (example_env\<lparr>irq_of_parse_and_map_ret := \<lambda>_. 0\<rparr>) 1 = 0
   \<and> (\<exists>w'. ingenic_tcu_setup_cevt (example_env\<lparr>irq_of_parse_and_map_ret := \<lambda>_. 0\<rparr>) 1
              example_fresh = Ret (- 22) w'
         \<and> trace w' =
             [Test_and_set_bit 1, Clk_get ''timer1'', Clk_prepare_enable 0x80001100,
              Of_parse_phandle ''tcsr'' 1, Syscon_node_to_regmap 0x80002000,
              Regmap_update_bits 0x80002100 0 0xffc0 0, Clk_get_rate 0x80001100,
              Kzalloc Jzcevt_struct, Irq_of_parse_and_map 1,
              Kfree Jzcevt_struct 0x80003200,
              Clk_disable_unprepare 0x80001100, Clk_put 0x80001100, Clear_bit 1]
         \<and> \<not> bit (requested (tcu w')) 1)
   \<and> irq_of_parse_and_map_ret (example_env\<lparr>request_irq_ret := \<lambda>_. - 16\<rparr>) 1 = 22
   \<and> request_irq_ret (example_env\<lparr>request_irq_ret := \<lambda>_. - 16\<rparr>) 22 = - 16
   \<and> (\<exists>w'. ingenic_tcu_setup_cevt (example_env\<lparr>request_irq_ret := \<lambda>_. - 16\<rparr>) 1
              example_fresh = Ret (- 16) w'
         \<and> trace w' =
             [Test_and_set_bit 1, Clk_get ''timer1'', Clk_prepare_enable 0x80001100,
              Of_parse_phandle ''tcsr'' 1, Syscon_node_to_regmap 0x80002000,
              Regmap_update_bits 0x80002100 0 0xffc0 0, Clk_get_rate 0x80001100,
              Kzalloc Jzcevt_struct, Irq_of_parse_and_map 1,
              Request_irq 22 ''TCU1'' 0x80003200,
              Irq_dispose_mapping 22,
              Kfree Jzcevt_struct 0x80003200,
              Clk_disable_unprepare 0x80001100, Clk_put 0x80001100, Clear_bit 1]
         \<and> \<not> bit (requested (tcu w')) 1)"
proof -
  let ?no_irq = "example_env\<lparr>irq_of_parse_and_map_ret := \<lambda>_. 0\<rparr>"
  let ?irq_taken = "example_env\<lparr>request_irq_ret := \<lambda>_. - 16\<rparr>"
  let ?acquired = "[Test_and_set_bit 1, Clk_get ''timer1'', Clk_prepare_enable 0x80001100,
              Of_parse_phandle ''tcsr'' 1, Syscon_node_to_regmap 0x80002000,
              Regmap_update_bits 0x80002100 0 0xffc0 0, Clk_get_rate 0x80001100,
              Kzalloc Jzcevt_struct, Irq_of_parse_and_map 1]"
  have e: "\<not> IS_ERR 0x80001100" "\<not> IS_ERR 0x80002100"
    by (simp_all add: IS_ERR_def MAX_ERRNO_def)
  have w: "(1 :: nat) = unat (1 :: u32)" "1 < length (channels (tcu example_fresh))"
    "\<lparr>idx = 1, clk = 0\<rparr> = channels (tcu example_fresh) ! 1"
    "(1 :: nat) = unat (idx \<lparr>idx = 1, clk = 0\<rparr>)" "(1 :: nat) < BITS_PER_LONG"
    "\<not> bit (requested (tcu example_fresh)) (1 :: nat)"
    "''timer1'' = ''timer'' @ fmt_u 1"
    by (simp_all add: example_defs BITS_PER_LONG_def fmt_u.simps digit_def)
  have a: "\<exists>w'. ingenic_tcu_setup_cevt ?no_irq 1 example_fresh = Ret (- 22) w'
         \<and> trace w' = ?acquired @ [Kfree Jzcevt_struct 0x80003200,
              Clk_disable_unprepare 0x80001100, Clk_put 0x80001100, Clear_bit 1]
         \<and> \<not> bit (requested (tcu w')) 1"
  proof -
    have "0x80001100 = clk_get_ret ?no_irq ''timer1''"
      and "\<not> IS_ERR 0x80001100"
      and "clk_prepare_enable_ret ?no_irq 0x80001100 = 0"
      and "0x80002000 = of_parse_phandle_ret ?no_irq ''tcsr'' (idx \<lparr>idx = 1, clk = 0\<rparr>)"
      and "(0x80002000 :: pointer) \<noteq> 0"
      and "0x80002100 = syscon_node_to_regmap_ret ?no_irq 0x80002000"
      and "\<not> IS_ERR 0x80002100"
      and "regmap_update_bits_ret ?no_irq 0x80002100 = 0"
      and "clk_get_rate_ret ?no_irq 0x80001100 \<noteq> 0"
      and "0x80003200 = kzalloc_ret ?no_irq Jzcevt_struct"
      and "(0x80003200 :: pointer) \<noteq> 0"
      and "0 = irq_of_parse_and_map_ret ?no_irq 1"
      and "?acquired = [Test_and_set_bit 1, Clk_get ''timer1'', Clk_prepare_enable 0x80001100,
              Of_parse_phandle ''tcsr'' (idx \<lparr>idx = 1, clk = 0\<rparr>),
              Syscon_node_to_regmap 0x80002000,
              Regmap_update_bits 0x80002100 0 0xffc0 0, Clk_get_rate 0x80001100,
              Kzalloc Jzcevt_struct, Irq_of_parse_and_map 1]"
      using e by (simp_all add: example_defs)
    from setup_cevt_unwinds [OF w this]
    show ?thesis by (simp add: EINVAL_def example_fresh_def)
  qed
  have b: "\<exists>w'. ingenic_tcu_setup_cevt ?irq_taken 1 example_fresh = Ret (- 16) w'
         \<and> trace w' = ?acquired @ [Request_irq 22 ''TCU1'' 0x80003200,
              Irq_dispose_mapping 22, Kfree Jzcevt_struct 0x80003200,
              Clk_disable_unprepare 0x80001100, Clk_put 0x80001100, Clear_bit 1]
         \<and> \<not> bit (requested (tcu w')) 1"
  proof -
    have "0x80001100 = clk_get_ret ?irq_taken ''timer1''"
      and "\<not> IS_ERR 0x80001100"
      and "clk_prepare_enable_ret ?irq_taken 0x80001100 = 0"
      and "0x80002000 = of_parse_phandle_ret ?irq_taken ''tcsr'' (idx \<lparr>idx = 1, clk = 0\<rparr>)"
      and "(0x80002000 :: pointer) \<noteq> 0"
      and "0x80002100 = syscon_node_to_regmap_ret ?irq_taken 0x80002000"
      and "\<not> IS_ERR 0x80002100"
      and "regmap_update_bits_ret ?irq_taken 0x80002100 = 0"
      and "clk_get_rate_ret ?irq_taken 0x80001100 \<noteq> 0"
      and "0x80003200 = kzalloc_ret ?irq_taken Jzcevt_struct"
      and "(0x80003200 :: pointer) \<noteq> 0"
      and "22 = irq_of_parse_and_map_ret ?irq_taken 1"
      and "?acquired = [Test_and_set_bit 1, Clk_get ''timer1'', Clk_prepare_enable 0x80001100,
              Of_parse_phandle ''tcsr'' (idx \<lparr>idx = 1, clk = 0\<rparr>),
              Syscon_node_to_regmap 0x80002000,
              Regmap_update_bits 0x80002100 0 0xffc0 0, Clk_get_rate 0x80001100,
              Kzalloc Jzcevt_struct, Irq_of_parse_and_map 1]"
      using e by (simp_all add: example_defs)
    from setup_cevt_unwinds [OF w this]
    show ?thesis
      by (simp add: example_fresh_def example_env_def ingenic_tcu_timer_names_def)
  qed
  from a b show ?thesis
    by (simp add: example_env_def)
qed

subsection \<open>The initializer on failures\<close>

lemma upt2: "[0..<2] = [0, Suc 0]"
  by (simp add: numeral_2_eq_2)

text \<open>On the concrete platform the initializer succeeds.\<close>

lemma init_example_ok: "\<exists>w'. ingenic_tcu_init example_env example_fresh = Ret 0 w'"
  by (simp add: example_defs driver_defs service_defs prog_defs
      IS_ERR_def MAX_ERRNO_def upt2 fmt_u.simps digit_def BITS_PER_LONG_def
      ingenic_tcu_timer_names_def tcsr_mask)

text \<open>A channel index that is not below the number of channels is not compared with
  it anywhere: \<open>ingenic_tcu_setup_cevt\<close> forms the pointer \<open>&tcu->channels[idx]\<close> and
  \<open>ingenic_tcu_req_channel\<close> reads through it.\<close>

lemma setup_cevt_out_of_range:
  "length (channels (tcu w)) \<le> unat i \<Longrightarrow> ingenic_tcu_setup_cevt e i w = Fault"
  by (simp add: ingenic_tcu_setup_cevt_def ingenic_tcu_req_channel_def prog_defs Let_def)

text \<open>
  Claim C1 (not met by the code). The claim asks that an index of the property
  \<open>timers\<close> that is not below the number of channels be reported as an error, with
  nothing claimed. Evaluated on a unit of two channels whose \<open>timers\<close> property is the
  single cell 2, the initializer returns no error code: it reads the channel structure
  one past the end of the array.
\<close>

theorem out_of_range_index_faults:
  "of_property_count_elems_ret example_env_oob ''interrupts'' = 2
   \<and> of_property_read_u32_index_ret example_env_oob ''timers'' 0 = (0, 2)
   \<and> ingenic_tcu_setup_cevt example_env_oob 2 example_fresh = Fault
   \<and> ingenic_tcu_init example_env_oob example_fresh = Fault"
  by (simp add: example_env_oob_def example_defs driver_defs service_defs prog_defs
      IS_ERR_def MAX_ERRNO_def upt2)

text \<open>
  Claim C2 (not met by the code). The claim asks that every failure of the
  initializer come back to the caller as an error code. Evaluated on three platforms,
  one where the allocation of the unit fails, one where the read of the \<open>timers\<close> entry
  fails, one where the clock of channel 0 is missing, the initializer does not return:
  it stops in \<open>BUG_ON\<close>, after the calls listed.
\<close>

theorem init_failures_hit_bug_on:
  "(\<exists>w'. ingenic_tcu_init (example_env\<lparr>kzalloc_ret := \<lambda>_. 0\<rparr>) example_fresh = Bug w'
       \<and> trace w' = [Of_property_count_elems ''timers'', Of_property_count_elems ''interrupts'',
                      Kzalloc Tcu_struct])
   \<and> (\<exists>w'. ingenic_tcu_init (example_env\<lparr>of_property_read_u32_index_ret := \<lambda>_ _. (- 22, 0)\<rparr>)
              example_fresh = Bug w'
       \<and> trace w' = [Of_property_count_elems ''timers'', Of_property_count_elems ''interrupts'',
                      Kzalloc Tcu_struct, Kzalloc Channel_array,
                      Syscon_regmap_lookup_by_phandle ''ter'', Of_iomap,
                      Of_property_read_u32_index ''timers'' 0])
   \<and> (\<exists>w'. ingenic_tcu_init (example_env\<lparr>clk_get_ret := \<lambda>_. - 2\<rparr>) example_fresh = Bug w'
       \<and> trace w' = [Of_property_count_elems ''timers'', Of_property_count_elems ''interrupts'',
                      Kzalloc Tcu_struct, Kzalloc Channel_array,
                      Syscon_regmap_lookup_by_phandle ''ter'', Of_iomap,
                      Of_property_read_u32_index ''timers'' 0,
                      Test_and_set_bit 0, Clk_get ''timer0'', Clear_bit 0])"
  by (simp add: example_defs driver_defs service_defs prog_defs ENOMEM_def
      IS_ERR_def MAX_ERRNO_def PTR_ERR_def upt2 fmt_u.simps digit_def BITS_PER_LONG_def)

end
